theory Spec2Isabelle
  imports Main "HOL-Library.Monad_Syntax"
begin

section \<open>Data model\<close>

text \<open>
  The engine of \<^verbatim>\<open>logic.js\<close> (classes Rules, Game, ChessPiece and its six subclasses,
  Board) over an explicit object store.  A JavaScript piece object is a \<open>piece\<close> record
  in the store, named by its index (a \<open>ref\<close>); the grid of a board, the cached king and
  rook handles, \<open>Rules.selectedPiece\<close> and \<open>Rules.enPassantTarget\<close> hold refs, so two
  names of one object see each other's writes, as in the source.  Position objects
  \<open>{row, column}\<close> are only ever replaced, never written into, and are modelled as pairs
  of integers.  The image path of a piece is used by the UI class only and is left out.
\<close>

datatype color = White | Black

datatype kind = Pawn | Rook | Knight | Bishop | Queen | King

type_synonym position = "int \<times> int"

abbreviation row :: "position \<Rightarrow> int" where "row \<equiv> fst"

abbreviation column :: "position \<Rightarrow> int" where "column \<equiv> snd"

text \<open>
  All fields the six classes declare, in one record.  \<open>amtMove\<close> is read on kings and
  rooks only, \<open>check\<close> on kings only; \<open>enPassantMoves\<close> is \<open>None\<close> for the source's
  \<open>null\<close> and for a missing property (checkEnPassant adds it to any selected piece).
\<close>

record piece =
  kind :: kind
  color :: color
  position :: position
  amtMove :: int
  check :: bool
  availableMoves :: "position list"
  previousCoordinate :: "position option"
  enPassantMoves :: "position option"

type_synonym ref = nat

type_synonym store = "piece list"

record board =
  grid :: "ref option list list"
  wKing :: ref
  bKing :: ref
  wRookLeft :: ref
  wRookRight :: ref
  bRookLeft :: ref
  bRookRight :: ref

text \<open>The constructors: \<open>new Pawn(color, position, img)\<close> and its siblings.\<close>

definition newPiece :: "kind \<Rightarrow> color \<Rightarrow> position \<Rightarrow> piece" where
  "newPiece k c p =
     \<lparr>kind = k, color = c, position = p, amtMove = 0, check = False,
      availableMoves = [], previousCoordinate = None, enPassantMoves = None\<rparr>"

definition hasMoved :: "piece \<Rightarrow> bool" where
  "hasMoved p = (amtMove p > 0)"

subsection \<open>JavaScript arrays\<close>

text \<open>\<open>xs[i]\<close>: \<open>None\<close> is the source's \<open>undefined\<close>, for every index outside the array.\<close>

fun nthI :: "'a list \<Rightarrow> int \<Rightarrow> 'a option" where
  "nthI [] i = None"
| "nthI (x # xs) i = (if i = 0 then Some x else nthI xs (i - 1))"

text \<open>\<open>xs[i] = v\<close> for an index inside the array.\<close>

fun updI :: "'a list \<Rightarrow> int \<Rightarrow> 'a \<Rightarrow> 'a list" where
  "updI [] i v = []"
| "updI (x # xs) i v = (if i = 0 then v # xs else x # updI xs (i - 1) v)"

text \<open>
  \<open>this.grid[r][c] = v\<close>.  A missing row makes the source throw a TypeError.  A column
  outside the row would make JavaScript grow the row or add a stray property; the model
  stops there as well (the 8 by 8 shape every loop of the source relies on would be lost).
  \<open>None\<close> is that stop.
\<close>

definition setCell :: "ref option list list \<Rightarrow> int \<Rightarrow> int \<Rightarrow> ref option \<Rightarrow> ref option list list option" where
  "setCell g r c v =
     (case nthI g r of
        None \<Rightarrow> None
      | Some rw \<Rightarrow> if 0 \<le> c \<and> c < int (length rw) then Some (updI g r (updI rw c v)) else None)"

text \<open>
  \<open>this.grid[r][c]\<close> as a value: the outer \<open>None\<close> is the TypeError of reading a property
  of a missing row, the inner one is \<open>null\<close> or \<open>undefined\<close> (the source never tells them
  apart on a cell).
\<close>

definition cell :: "ref option list list \<Rightarrow> int \<Rightarrow> int \<Rightarrow> ref option option" where
  "cell g r c =
     (case nthI g r of
        None \<Rightarrow> None
      | Some rw \<Rightarrow> (case nthI rw c of None \<Rightarrow> Some None | Some x \<Rightarrow> Some x))"

section \<open>Board: reading squares\<close>

text \<open>
  Board.isSquareOccupied.  Each array read is an \<open>nthI\<close>; the result is \<open>None\<close> exactly if
  one of them falls outside its array, so that "never reads outside the grid" is the
  statement that the result is never \<open>None\<close>.
\<close>

definition isSquareOccupied :: "board \<Rightarrow> position \<Rightarrow> bool option" where
  "isSquareOccupied b p =
     (if row p \<ge> 0 \<and> row p < int (length (grid b)) \<and> column p \<ge> 0 then
        do {
          rw \<leftarrow> nthI (grid b) (row p);
          if column p < int (length rw) then
            do { x \<leftarrow> nthI rw (column p); Some (x \<noteq> None) }
          else Some False
        }
      else Some False)"

text \<open>The test \<open>if (board.isSquareOccupied(p))\<close> of the callers.\<close>

definition occupied :: "board \<Rightarrow> position \<Rightarrow> bool" where
  "occupied b p = (isSquareOccupied b p = Some True)"

text \<open>Board.getPieceAtPosition; the outer \<open>None\<close> is the TypeError on a missing row.\<close>

definition getPieceAtPosition :: "board \<Rightarrow> position \<Rightarrow> ref option option" where
  "getPieceAtPosition b p = cell (grid b) (row p) (column p)"

text \<open>
  \<open>board.getPieceAtPosition(p)?.color\<close>.  The piece classes call it right after
  \<open>isSquareOccupied(p)\<close> answered true, where both reads are inside the grid and the cell
  holds an object; \<open>None\<close> stands for \<open>undefined\<close>.
\<close>

definition colorAt :: "store \<Rightarrow> board \<Rightarrow> position \<Rightarrow> color option" where
  "colorAt s b p =
     (case getPieceAtPosition b p of Some (Some r) \<Rightarrow> Some (color (s ! r)) | _ \<Rightarrow> None)"

section \<open>Piece catalog: possibleMoves\<close>

definition onBoard :: "int \<Rightarrow> int \<Rightarrow> bool" where
  "onBoard r c = (r \<ge> 0 \<and> r < 8 \<and> c \<ge> 0 \<and> c < 8)"

text \<open>
  The body shared by Knight and King for one target square: inside the board, a capture
  if the occupant is not of the mover's colour, a plain move if the square is empty.
\<close>

definition stepTo :: "store \<Rightarrow> board \<Rightarrow> color \<Rightarrow> position \<Rightarrow> position list" where
  "stepTo s b me p =
     (if occupied b p then (if colorAt s b p \<noteq> Some me then [p] else []) else [p])"

text \<open>
  The while loop of Rook, Bishop and Queen along one direction, entered at the first
  square after the piece.  The source's direction tables never hold \<open>(0, 0)\<close>, on which
  the loop would not advance; the first test makes the function total.
\<close>

function ray :: "store \<Rightarrow> board \<Rightarrow> color \<Rightarrow> int \<Rightarrow> int \<Rightarrow> int \<Rightarrow> int \<Rightarrow> position list" where
  "ray s b me dr dc r c =
     (if dr = 0 \<and> dc = 0 then []
      else if onBoard r c then
        (if occupied b (r, c) then (if colorAt s b (r, c) \<noteq> Some me then [(r, c)] else [])
         else (r, c) # ray s b me dr dc (r + dr) (c + dc))
      else [])"
  by pat_completeness auto
termination
  by (relation "measure (\<lambda>(s, b, me, dr, dc, r, c).
        if dr > 0 then nat (8 - r) else if dr < 0 then nat (r + 1)
        else if dc > 0 then nat (8 - c) else nat (c + 1))")
     (auto simp: onBoard_def)

declare ray.simps [simp del]

definition rays :: "store \<Rightarrow> board \<Rightarrow> piece \<Rightarrow> (int \<times> int) list \<Rightarrow> position list" where
  "rays s b p ds =
     concat (map (\<lambda>(dr, dc). ray s b (color p) dr dc (row (position p) + dr) (column (position p) + dc)) ds)"

definition rookDirections :: "(int \<times> int) list" where
  "rookDirections = [(-1, 0), (1, 0), (0, -1), (0, 1)]"

definition bishopDirections :: "(int \<times> int) list" where
  "bishopDirections = [(-1, -1), (-1, 1), (1, -1), (1, 1)]"

definition queenDirections :: "(int \<times> int) list" where
  "queenDirections = [(-1, -1), (-1, 1), (1, -1), (1, 1), (-1, 0), (1, 0), (0, -1), (0, 1)]"

definition knightDirections :: "(int \<times> int) list" where
  "knightDirections = [(-2, -1), (-2, 1), (-1, -2), (-1, 2), (1, -2), (1, 2), (2, -1), (2, 1)]"

definition kingDirections :: "(int \<times> int) list" where
  "kingDirections = [(-1, -1), (-1, 1), (1, -1), (1, 1), (-1, 0), (1, 0), (0, -1), (0, 1)]"

definition rookMoves :: "store \<Rightarrow> board \<Rightarrow> piece \<Rightarrow> position list" where
  "rookMoves s b p = rays s b p rookDirections"

definition bishopMoves :: "store \<Rightarrow> board \<Rightarrow> piece \<Rightarrow> position list" where
  "bishopMoves s b p = rays s b p bishopDirections"

definition queenMoves :: "store \<Rightarrow> board \<Rightarrow> piece \<Rightarrow> position list" where
  "queenMoves s b p = rays s b p queenDirections"

definition knightMoves :: "store \<Rightarrow> board \<Rightarrow> piece \<Rightarrow> position list" where
  "knightMoves s b p =
     concat (map (\<lambda>(dr, dc).
        let newRow = row (position p) + dr; newColumn = column (position p) + dc
        in if onBoard newRow newColumn then stepTo s b (color p) (newRow, newColumn) else [])
       knightDirections)"

text \<open>
  Pawn.possibleMoves: the pushes in the order of the source.  \<open>pawnForward\<close> is the
  single and the double step, \<open>pawnCapture\<close> one diagonal
  (\<open>pieceAtSquare?.color !== this.color\<close>).
\<close>

definition pawnForward :: "board \<Rightarrow> piece \<Rightarrow> int \<Rightarrow> int \<Rightarrow> position list" where
  "pawnForward b p forwardRow startRow =
     (if \<not> occupied b (row (position p) + forwardRow, column (position p)) then
        (row (position p) + forwardRow, column (position p)) #
        (if row (position p) = startRow
            \<and> \<not> occupied b (row (position p) + forwardRow + forwardRow, column (position p))
         then [(row (position p) + forwardRow + forwardRow, column (position p))] else [])
      else [])"

definition pawnCapture :: "store \<Rightarrow> board \<Rightarrow> piece \<Rightarrow> position \<Rightarrow> position list" where
  "pawnCapture s b p q =
     (if occupied b q \<and> colorAt s b q \<noteq> Some (color p) then [q] else [])"

definition pawnMoves :: "store \<Rightarrow> board \<Rightarrow> piece \<Rightarrow> position list" where
  "pawnMoves s b p =
     (let forwardRow = (if color p = White then -1 else 1);
          startRow = (if color p = White then 6 else 1);
          nextRow = row (position p) + forwardRow
      in if nextRow \<ge> 0 \<and> nextRow \<le> 7 then
           pawnForward b p forwardRow startRow
           @ pawnCapture s b p (row (position p) + forwardRow, column (position p) - 1)
           @ pawnCapture s b p (row (position p) + forwardRow, column (position p) + 1)
         else [])"

text \<open>
  King.possibleMoves.  For the directions left and right the castling push comes before
  the standard move of the same direction; the rook consulted is the board's cached
  handle, not the occupant of the corner.  \<open>castleLeft\<close> and \<open>castleRight\<close> are the two
  castling conditionals, given the square next to the king.
\<close>

definition castleLeft :: "store \<Rightarrow> board \<Rightarrow> piece \<Rightarrow> int \<Rightarrow> int \<Rightarrow> position list" where
  "castleLeft s b p nextRow nextColumn =
     (if \<not> occupied b (nextRow, nextColumn) \<and> \<not> occupied b (nextRow, nextColumn - 1)
         \<and> \<not> occupied b (nextRow, nextColumn - 2) \<and> \<not> hasMoved p
         \<and> ((color p = White \<and> \<not> hasMoved (s ! wRookLeft b))
             \<or> (color p = Black \<and> \<not> hasMoved (s ! bRookLeft b)))
      then [(nextRow, nextColumn - 1)] else [])"

definition castleRight :: "store \<Rightarrow> board \<Rightarrow> piece \<Rightarrow> int \<Rightarrow> int \<Rightarrow> position list" where
  "castleRight s b p nextRow nextColumn =
     (if \<not> occupied b (nextRow, nextColumn) \<and> \<not> occupied b (nextRow, nextColumn + 1)
         \<and> \<not> hasMoved p
         \<and> ((color p = White \<and> \<not> hasMoved (s ! wRookRight b))
             \<or> (color p = Black \<and> \<not> hasMoved (s ! bRookRight b)))
      then [(nextRow, nextColumn + 1)] else [])"

definition kingStep :: "store \<Rightarrow> board \<Rightarrow> piece \<Rightarrow> int \<times> int \<Rightarrow> position list" where
  "kingStep s b p d =
     (let nextRow = row (position p) + fst d; nextColumn = column (position p) + snd d
      in if onBoard nextRow nextColumn then
           (if fst d = 0 \<and> snd d = -1 then castleLeft s b p nextRow nextColumn
            else if fst d = 0 \<and> snd d = 1 then castleRight s b p nextRow nextColumn
            else [])
           @ stepTo s b (color p) (nextRow, nextColumn)
         else [])"

definition kingMoves :: "store \<Rightarrow> board \<Rightarrow> piece \<Rightarrow> position list" where
  "kingMoves s b p = concat (map (kingStep s b p) kingDirections)"

text \<open>The list a piece's possibleMoves(board) builds, by the class of the piece.\<close>

definition pseudoMoves :: "store \<Rightarrow> board \<Rightarrow> piece \<Rightarrow> position list" where
  "pseudoMoves s b p =
     (case kind p of
        Pawn \<Rightarrow> pawnMoves s b p
      | Rook \<Rightarrow> rookMoves s b p
      | Knight \<Rightarrow> knightMoves s b p
      | Bishop \<Rightarrow> bishopMoves s b p
      | Queen \<Rightarrow> queenMoves s b p
      | King \<Rightarrow> kingMoves s b p)"

text \<open>
  \<open>piece.possibleMoves(board)\<close>: the list is also left in the piece's \<open>availableMoves\<close>
  (the source empties that array and pushes into it).
\<close>

definition possibleMoves :: "store \<Rightarrow> board \<Rightarrow> ref \<Rightarrow> position list \<times> store" where
  "possibleMoves s b r =
     (let ms = pseudoMoves s b (s ! r) in (ms, s[r := (s ! r)\<lparr>availableMoves := ms\<rparr>]))"

section \<open>Board: construction, moving, cloning\<close>

text \<open>\<open>new\<close>: the object is appended to the store and named by its index.\<close>

definition alloc :: "store \<Rightarrow> piece \<Rightarrow> store \<times> ref" where
  "alloc s p = (s @ [p], length s)"

text \<open>A write to a cell known to be inside the grid.\<close>

definition putCell :: "ref option list list \<Rightarrow> int \<Rightarrow> int \<Rightarrow> ref option \<Rightarrow> ref option list list" where
  "putCell g r c v = (case nthI g r of None \<Rightarrow> g | Some rw \<Rightarrow> updI g r (updI rw c v))"

definition emptyGrid :: "ref option list list" where
  "emptyGrid = replicate 8 (replicate 8 None)"

definition pieceTypes :: "kind list" where
  "pieceTypes = [Rook, Knight, Bishop, Queen, King, Bishop, Knight, Rook]"

text \<open>Board.initializeBoard: the pawn loop, then the loop over the two back ranks.\<close>

definition initPawns :: "store \<times> ref option list list \<Rightarrow> int \<Rightarrow> store \<times> ref option list list" where
  "initPawns sg i =
     (case alloc (fst sg) ((newPiece Pawn Black (1, i))\<lparr>previousCoordinate := Some (1, i)\<rparr>) of
        (s1, r1) \<Rightarrow>
          (case alloc s1 ((newPiece Pawn White (6, i))\<lparr>previousCoordinate := Some (6, i)\<rparr>) of
             (s2, r2) \<Rightarrow> (s2, putCell (putCell (snd sg) 1 i (Some r1)) 6 i (Some r2))))"

definition initBackRank :: "store \<times> ref option list list \<Rightarrow> int \<times> kind \<Rightarrow> store \<times> ref option list list" where
  "initBackRank sg ik =
     (case alloc (fst sg) (newPiece (snd ik) Black (0, fst ik)) of
        (s1, r1) \<Rightarrow>
          (case alloc s1 (newPiece (snd ik) White (7, fst ik)) of
             (s2, r2) \<Rightarrow> (s2, putCell (putCell (snd sg) 0 (fst ik) (Some r1)) 7 (fst ik) (Some r2))))"

definition initializeBoard :: "store \<Rightarrow> ref option list list \<Rightarrow> store \<times> ref option list list" where
  "initializeBoard s g =
     foldl initBackRank (foldl initPawns (s, g) [0, 1, 2, 3, 4, 5, 6, 7])
       (zip [0, 1, 2, 3, 4, 5, 6, 7] pieceTypes)"

text \<open>
  The Board constructor.  The handles are read from the corner and king squares, which
  the loops above have just filled.
\<close>

definition handleAt :: "ref option list list \<Rightarrow> int \<Rightarrow> int \<Rightarrow> ref" where
  "handleAt g r c = (case cell g r c of Some (Some x) \<Rightarrow> x | _ \<Rightarrow> 0)"

definition newBoard :: "store \<Rightarrow> store \<times> board" where
  "newBoard s =
     (case initializeBoard s emptyGrid of
        (s', g) \<Rightarrow>
          (s', \<lparr>grid = g, wKing = handleAt g 7 4, bKing = handleAt g 0 4,
                wRookLeft = handleAt g 7 0, wRookRight = handleAt g 7 7,
                bRookLeft = handleAt g 0 0, bRookRight = handleAt g 0 7\<rparr>))"

subsection \<open>Board.movePiece\<close>

text \<open>
  An operation that mutates and may throw ends in \<open>Done\<close> or in \<open>Threw\<close>, each with the
  state as it stands at that point: what the source has written before a TypeError stays
  written.
\<close>

datatype 'a outcome = Done 'a | Threw 'a

definition andThen :: "'a outcome \<Rightarrow> ('a \<Rightarrow> 'a outcome) \<Rightarrow> 'a outcome" where
  "andThen m f = (case m of Done x \<Rightarrow> f x | Threw x \<Rightarrow> Threw x)"

definition stateOf :: "'a outcome \<Rightarrow> 'a" where
  "stateOf m = (case m of Done x \<Rightarrow> x | Threw x \<Rightarrow> x)"

text \<open>
  First statement: the comparison of the mover's \<open>enPassantMoves\<close> with the destination
  (both through JSON.stringify), and the removal of the pawn beside the destination.
  Reading \<open>enPassantMoves\<close> of an empty origin square is the TypeError.
\<close>

definition mpEnPassant :: "position \<Rightarrow> position \<Rightarrow> store \<times> board \<Rightarrow> (store \<times> board) outcome" where
  "mpEnPassant fromPosition toPosition sb =
     (case cell (grid (snd sb)) (row fromPosition) (column fromPosition) of
        Some (Some r) \<Rightarrow>
          if enPassantMoves (fst sb ! r) = Some toPosition then
            (case setCell (grid (snd sb))
                    (if color (fst sb ! r) = White then row toPosition + 1 else row toPosition - 1)
                    (column toPosition) None of
               None \<Rightarrow> Threw sb
             | Some g \<Rightarrow> Done (fst sb, (snd sb)\<lparr>grid := g\<rparr>))
          else Done sb
      | _ \<Rightarrow> Threw sb)"

text \<open>
  The rook's part of castling: \<open>grid[r][cTo] = grid[r][cFrom]; grid[r][cFrom] = null;
  grid[r][cTo].position = {r, cTo}\<close>.  With no rook in the corner the last statement
  throws after the two grid writes.
\<close>

definition mpCastleRook :: "int \<Rightarrow> int \<Rightarrow> int \<Rightarrow> store \<times> board \<Rightarrow> (store \<times> board) outcome" where
  "mpCastleRook r cFrom cTo sb =
     (case cell (grid (snd sb)) r cFrom of
        None \<Rightarrow> Threw sb
      | Some x \<Rightarrow>
          (case setCell (grid (snd sb)) r cTo x of
             None \<Rightarrow> Threw sb
           | Some g1 \<Rightarrow>
               (case setCell g1 r cFrom None of
                  None \<Rightarrow> Threw (fst sb, (snd sb)\<lparr>grid := g1\<rparr>)
                | Some g2 \<Rightarrow>
                    (case x of
                       None \<Rightarrow> Threw (fst sb, (snd sb)\<lparr>grid := g2\<rparr>)
                     | Some rk \<Rightarrow>
                         Done ((fst sb)[rk := (fst sb ! rk)\<lparr>position := (r, cTo)\<rparr>],
                               (snd sb)\<lparr>grid := g2\<rparr>)))))"

text \<open>\<open>king.color === "White" ? (this.wKing = king) : (this.bKing = king); king.amtMove++\<close>\<close>

definition mpKingBook :: "ref \<Rightarrow> store \<times> board \<Rightarrow> (store \<times> board) outcome" where
  "mpKingBook k sb =
     Done ((fst sb)[k := (fst sb ! k)\<lparr>amtMove := amtMove (fst sb ! k) + 1\<rparr>],
           (if color (fst sb ! k) = White then (snd sb)\<lparr>wKing := k\<rparr> else (snd sb)\<lparr>bKing := k\<rparr>))"

text \<open>
  Second statement: the King and Rook branches.  In the Rook branch the conditional
  expression only builds a function and never calls it, so no rook handle is written;
  the counter of the rook on the square is incremented.
\<close>

definition mpKingRook :: "position \<Rightarrow> position \<Rightarrow> store \<times> board \<Rightarrow> (store \<times> board) outcome" where
  "mpKingRook fromPosition toPosition sb =
     (case cell (grid (snd sb)) (row fromPosition) (column fromPosition) of
        Some (Some r) \<Rightarrow>
          if kind (fst sb ! r) = King \<and> \<not> hasMoved (fst sb ! r) then
            andThen
              (if toPosition = (7, 6) then mpCastleRook 7 7 5 sb
               else if toPosition = (7, 2) then mpCastleRook 7 0 3 sb
               else if toPosition = (0, 6) then mpCastleRook 0 7 5 sb
               else if toPosition = (0, 2) then mpCastleRook 0 0 3 sb
               else Done sb)
              (mpKingBook r)
          else if kind (fst sb ! r) = King then mpKingBook r sb
          else if kind (fst sb ! r) = Rook then
            Done ((fst sb)[r := (fst sb ! r)\<lparr>amtMove := amtMove (fst sb ! r) + 1\<rparr>], snd sb)
          else Done sb
      | _ \<Rightarrow> Done sb)"

text \<open>Third statement: a pawn remembers the square it leaves.\<close>

definition mpPawnPrev :: "position \<Rightarrow> store \<times> board \<Rightarrow> (store \<times> board) outcome" where
  "mpPawnPrev fromPosition sb =
     (case cell (grid (snd sb)) (row fromPosition) (column fromPosition) of
        Some (Some r) \<Rightarrow>
          if kind (fst sb ! r) = Pawn then
            Done ((fst sb)[r := (fst sb ! r)\<lparr>previousCoordinate := Some fromPosition\<rparr>], snd sb)
          else Done sb
      | Some None \<Rightarrow> Done sb
      | None \<Rightarrow> Threw sb)"

text \<open>
  The last three statements: \<open>grid[to] = grid[from]; grid[from] = null;
  grid[to].position = toPosition\<close>.
\<close>

definition mpPlace :: "position \<Rightarrow> position \<Rightarrow> store \<times> board \<Rightarrow> (store \<times> board) outcome" where
  "mpPlace fromPosition toPosition sb =
     (case cell (grid (snd sb)) (row fromPosition) (column fromPosition) of
        None \<Rightarrow> Threw sb
      | Some x \<Rightarrow>
          (case setCell (grid (snd sb)) (row toPosition) (column toPosition) x of
             None \<Rightarrow> Threw sb
           | Some g1 \<Rightarrow>
               (case setCell g1 (row fromPosition) (column fromPosition) None of
                  None \<Rightarrow> Threw (fst sb, (snd sb)\<lparr>grid := g1\<rparr>)
                | Some g2 \<Rightarrow>
                    (case cell g2 (row toPosition) (column toPosition) of
                       Some (Some r) \<Rightarrow>
                         Done ((fst sb)[r := (fst sb ! r)\<lparr>position := toPosition\<rparr>],
                               (snd sb)\<lparr>grid := g2\<rparr>)
                     | _ \<Rightarrow> Threw (fst sb, (snd sb)\<lparr>grid := g2\<rparr>)))))"

definition movePiece :: "position \<Rightarrow> position \<Rightarrow> store \<times> board \<Rightarrow> (store \<times> board) outcome" where
  "movePiece fromPosition toPosition sb =
     andThen (andThen (andThen (mpEnPassant fromPosition toPosition sb)
                               (mpKingRook fromPosition toPosition))
                      (mpPawnPrev fromPosition))
             (mpPlace fromPosition toPosition)"

subsection \<open>Board.clone\<close>

text \<open>
  The double loop of clone over the copied grid: every piece is rebuilt by its own
  constructor from colour and position (so counters and flags start afresh), and a
  pawn's \<open>enPassantMoves\<close> is copied.  The grid is 8 by 8 in every board the constructor
  and movePiece produce, so the loop over rows 0 to 7 and columns 0 to 7 is the loop over
  the rows and cells of the grid.  (The \<open>new Board()\<close> at the head of clone builds 32
  pieces nothing refers to once its grid and handles are replaced; they are not kept.)
\<close>

definition cloneCell :: "store \<times> ref option list \<Rightarrow> ref option \<Rightarrow> store \<times> ref option list" where
  "cloneCell sr x =
     (case x of
        None \<Rightarrow> (fst sr, snd sr @ [None])
      | Some r \<Rightarrow>
          (let p = fst sr ! r;
               n = newPiece (kind p) (color p) (position p);
               n' = (if kind p = Pawn then n\<lparr>enPassantMoves := enPassantMoves p\<rparr> else n)
           in case alloc (fst sr) n' of (s', r') \<Rightarrow> (s', snd sr @ [Some r'])))"

definition cloneRow :: "store \<times> ref option list list \<Rightarrow> ref option list \<Rightarrow> store \<times> ref option list list" where
  "cloneRow sg rw = (case foldl cloneCell (fst sg, []) rw of (s', rw') \<Rightarrow> (s', snd sg @ [rw']))"

definition cloneKing :: "store \<Rightarrow> ref \<Rightarrow> store \<times> ref" where
  "cloneKing s k =
     alloc s ((newPiece King (color (s ! k)) (position (s ! k)))
                \<lparr>amtMove := amtMove (s ! k), check := check (s ! k)\<rparr>)"

text \<open>The rook handles share the \<open>availableMoves\<close> array of the original's handle.\<close>

definition cloneRook :: "store \<Rightarrow> ref \<Rightarrow> store \<times> ref" where
  "cloneRook s k =
     alloc s ((newPiece Rook (color (s ! k)) (position (s ! k)))
                \<lparr>amtMove := amtMove (s ! k), availableMoves := availableMoves (s ! k)\<rparr>)"

definition clone :: "store \<Rightarrow> board \<Rightarrow> (store \<times> board) outcome" where
  "clone s b =
     (case foldl cloneRow (s, []) (grid b) of
        (s0, g0) \<Rightarrow>
     (case cloneKing s0 (bKing b) of (s1, bk) \<Rightarrow>
     (case cloneKing s1 (wKing b) of (s2, wk) \<Rightarrow>
     (case cloneRook s2 (bRookLeft b) of (s3, brl) \<Rightarrow>
     (case cloneRook s3 (bRookRight b) of (s4, brr) \<Rightarrow>
     (case cloneRook s4 (wRookLeft b) of (s5, wrl) \<Rightarrow>
     (case cloneRook s5 (wRookRight b) of (s6, wrr) \<Rightarrow>
       (let nb = \<lparr>grid = g0, wKing = wk, bKing = bk, wRookLeft = wrl, wRookRight = wrr,
                  bRookLeft = brl, bRookRight = brr\<rparr>
        in case setCell g0 (row (position (s6 ! wk))) (column (position (s6 ! wk))) (Some wk) of
             None \<Rightarrow> Threw (s6, nb)
           | Some g1 \<Rightarrow>
               (case setCell g1 (row (position (s6 ! bk))) (column (position (s6 ! bk))) (Some bk) of
                  None \<Rightarrow> Threw (s6, nb\<lparr>grid := g1\<rparr>)
                | Some g2 \<Rightarrow> Done (s6, nb\<lparr>grid := g2\<rparr>))))))))))"

subsection \<open>Board.getAllPiecesMoves\<close>

text \<open>
  Row by row, cell by cell: every piece of the colour asked for recomputes its moves
  (which rewrites its \<open>availableMoves\<close>) and the lists are appended.
\<close>

definition gatherCell :: "board \<Rightarrow> color \<Rightarrow> position list \<times> store \<Rightarrow> ref option \<Rightarrow> position list \<times> store" where
  "gatherCell b t acc x =
     (case x of
        None \<Rightarrow> acc
      | Some r \<Rightarrow>
          if color (snd acc ! r) = t then
            (case possibleMoves (snd acc) b r of (ms, s') \<Rightarrow> (fst acc @ ms, s'))
          else acc)"

definition getAllPiecesMoves :: "color \<Rightarrow> store \<Rightarrow> board \<Rightarrow> position list \<times> store" where
  "getAllPiecesMoves t s b = foldl (gatherCell b t) ([], s) (concat (grid b))"

section \<open>Rules\<close>

datatype mode = Actual | Virtual

datatype situation = Casual | Check | CHECKMATE | Stalemate

datatype phase = ChoosingPiece | MovingAPiece | PawnPromotion

text \<open>
  The state of a running game: the store, the live board (the one object that
  \<open>Game.board\<close>, \<open>Rules.board\<close> and \<open>UI.board\<close> name), the fields of Rules, and two
  things of Game: whether its click handler is still bound to the table cells
  (\<open>$("table").on("click", "td", ...)\<close>, undone by \<open>$("table").off("click", "td")\<close>), and
  the property \<open>gameSituation\<close> that Game.movePiece and Game.handlePawnPromotion write on
  the Game object itself.  The UI object only draws and is left out.
\<close>

record game =
  store :: store
  board :: board
  turn :: color
  selectedPiece :: "ref option"
  gameSituation :: situation
  state :: phase
  enPassantTarget :: "ref option"
  availableMovesBlacks :: nat
  availableMovesWhite :: nat
  pawnInPromotion :: "position option"
  clickBound :: bool
  gameSituationOfGame :: "situation option"

text \<open>A function that returns a value, or throws, with the state at that point.\<close>

datatype ('a, 's) result = Ret 'a 's | Thrown 's

definition opponent :: "color \<Rightarrow> color" where
  "opponent c = (if c = White then Black else White)"

subsection \<open>Rules.checkVerification\<close>

text \<open>
  The two inner functions checkVerifyForBlackTeam and checkVerifyForWhiteTeam: the loop
  over the other side's moves, which clears the king's flag at every move that misses
  and, in mode "actual", sets it at the first one that hits.
\<close>

fun checkVerifyFor :: "ref \<Rightarrow> mode \<Rightarrow> store \<Rightarrow> position list \<Rightarrow> bool \<times> store" where
  "checkVerifyFor k m s [] = (False, s)"
| "checkVerifyFor k m s (mv # mvs) =
     (if row mv = row (position (s ! k)) \<and> column mv = column (position (s ! k)) then
        (True, if m = Actual then s[k := (s ! k)\<lparr>check := True\<rparr>] else s)
      else checkVerifyFor k m (s[k := (s ! k)\<lparr>check := False\<rparr>]) mvs)"

definition checkVerification :: "mode \<Rightarrow> ref \<Rightarrow> store \<Rightarrow> board \<Rightarrow> color option \<times> store" where
  "checkVerification m p s b =
     (let whites = getAllPiecesMoves White s b;
          blacks = getAllPiecesMoves Black (snd whites) b;
          pieceMovesWhites = fst whites;
          pieceMovesBlacks = fst blacks;
          s2 = snd blacks
      in if color (s2 ! p) = White then
           (let w = checkVerifyFor (wKing b) m s2 pieceMovesBlacks
            in if fst w then (Some White, snd w)
               else (let k = checkVerifyFor (bKing b) m (snd w) pieceMovesWhites
                     in if fst k then (Some Black, snd k) else (None, snd k)))
         else
           (let k = checkVerifyFor (bKing b) m s2 pieceMovesWhites
            in if fst k then (Some Black, snd k)
               else (let w = checkVerifyFor (wKing b) m (snd k) pieceMovesBlacks
                     in if fst w then (Some White, snd w) else (None, snd w))))"

subsection \<open>Rules.filterPieceMove\<close>

text \<open>\<open>staticAvailableMoves.filter((move) => move.row !== vMove.row || move.column !== vMove.column)\<close>\<close>

definition withoutMove :: "position \<Rightarrow> position list \<Rightarrow> position list" where
  "withoutMove v ms = filter (\<lambda>mv. row mv \<noteq> row v \<or> column mv \<noteq> column v) ms"

text \<open>
  The loop of filterPieceMove.  \<open>n\<close> is the size of the store at entry: the live
  objects.  The pieces of a clone are allocated above them; at \<open>board = null\<close> nothing
  names them any more and the store is cut back to \<open>n\<close> before the next clone is made.
  The loop runs over the list it was given (the iterator is not affected by the
  assignments to \<open>staticAvailableMoves\<close>), \<open>cur\<close> is the current value of that variable.
  A TypeError inside \<open>board.movePiece\<close> leaves the function, and the clone with it.
\<close>

fun filterLoop :: "nat \<Rightarrow> board \<Rightarrow> ref \<Rightarrow> mode \<Rightarrow> position \<Rightarrow> position list \<Rightarrow> position list
    \<Rightarrow> store \<times> board \<Rightarrow> store outcome" where
  "filterLoop n lb p m initialPosition [] cur sb = Done (take n (fst sb))"
| "filterLoop n lb p m initialPosition (vMove # vs) cur sb =
     (case movePiece initialPosition vMove sb of
        Threw sb' \<Rightarrow> Threw (take n (fst sb'))
      | Done sb1 \<Rightarrow>
          (let cv = checkVerification m p (fst sb1) (snd sb1);
               cur' = (if fst cv = Some (color (snd cv ! p)) then withoutMove vMove cur else cur)
           in case clone (take n (snd cv)) lb of
                Threw sb' \<Rightarrow> Threw (take n (fst sb'))
              | Done sb4 \<Rightarrow>
                  filterLoop n lb p m initialPosition vs cur'
                    ((fst sb4)[p := (fst sb4 ! p)\<lparr>availableMoves := cur'\<rparr>], snd sb4)))"

definition filterPieceMove :: "position list \<Rightarrow> ref \<Rightarrow> mode \<Rightarrow> board \<Rightarrow> store \<Rightarrow> store outcome" where
  "filterPieceMove staticAvailableMoves p m lb s =
     (case clone s lb of
        Threw sb \<Rightarrow> Threw (take (length s) (fst sb))
      | Done sb \<Rightarrow>
          filterLoop (length s) lb p m (position (s ! p)) staticAvailableMoves staticAvailableMoves sb)"

subsection \<open>Rules.filterAllMoves, checkMateVerify, staleMateVerification\<close>

text \<open>
  filterAllMoves: every piece on the live board has its current \<open>availableMoves\<close>
  filtered; the two counters count the pieces (not the moves) that keep a move.
\<close>

fun filterAllLoop :: "board \<Rightarrow> ref option list \<Rightarrow> nat \<Rightarrow> nat \<Rightarrow> store \<Rightarrow> (nat \<times> nat, store) result" where
  "filterAllLoop lb [] w bl s = Ret (w, bl) s"
| "filterAllLoop lb (x # xs) w bl s =
     (case x of
        None \<Rightarrow> filterAllLoop lb xs w bl s
      | Some r \<Rightarrow>
          (case filterPieceMove (availableMoves (s ! r)) r Actual lb s of
             Threw s' \<Rightarrow> Thrown s'
           | Done s' \<Rightarrow>
               if availableMoves (s' ! r) \<noteq> [] then
                 (if color (s' ! r) = White then filterAllLoop lb xs (w + 1) bl s'
                  else filterAllLoop lb xs w (bl + 1) s')
               else filterAllLoop lb xs w bl s'))"

definition filterAllMoves :: "game \<Rightarrow> (nat, game) result" where
  "filterAllMoves g =
     (case filterAllLoop (board g) (concat (grid (board g))) 0 0 (store g) of
        Thrown s' \<Rightarrow> Thrown (g\<lparr>store := s'\<rparr>)
      | Ret wb s' \<Rightarrow>
          Ret (if turn g = White then snd wb else fst wb)
              (g\<lparr>store := s', availableMovesWhite := fst wb, availableMovesBlacks := snd wb\<rparr>))"

definition checkMateVerify :: "game \<Rightarrow> (bool, game) result" where
  "checkMateVerify g =
     (case filterAllMoves g of Thrown g' \<Rightarrow> Thrown g' | Ret n g' \<Rightarrow> Ret (n = 0) g')"

text \<open>Both arms of the conditional in staleMateVerification read the black king's flag.\<close>

definition staleMateVerification :: "game \<Rightarrow> (situation, game) result" where
  "staleMateVerification g =
     (case filterAllMoves g of
        Thrown g' \<Rightarrow> Thrown g'
      | Ret n g' \<Rightarrow>
          if n = 0 \<and> (if turn g' = White then \<not> check (store g' ! bKing (board g'))
                       else \<not> check (store g' ! bKing (board g')))
          then Ret Stalemate (g'\<lparr>gameSituation := Stalemate\<rparr>)
          else Ret (gameSituation g') g')"

subsection \<open>Rules: the smaller methods\<close>

definition validateTurn :: "position \<Rightarrow> game \<Rightarrow> (bool, game) result" where
  "validateTurn uiClick g =
     (case cell (grid (board g)) (row uiClick) (column uiClick) of
        None \<Rightarrow> Thrown g
      | Some None \<Rightarrow> Ret False g
      | Some (Some x) \<Rightarrow> Ret (color (store g ! x) = turn g) g)"

definition switchTurn :: "game \<Rightarrow> game" where
  "switchTurn g = (if turn g = White then g\<lparr>turn := Black\<rparr> else g\<lparr>turn := White\<rparr>)"

definition validateUiMove :: "position \<Rightarrow> game \<Rightarrow> (bool, game) result" where
  "validateUiMove uiClick g =
     (case selectedPiece g of
        None \<Rightarrow> Thrown g
      | Some sp \<Rightarrow> Ret (uiClick \<in> set (availableMoves (store g ! sp))) g)"

text \<open>checkRowForPawn: the first column of the row that holds a pawn.\<close>

fun firstPawn :: "store \<Rightarrow> ref option list \<Rightarrow> int \<Rightarrow> int option" where
  "firstPawn s [] i = None"
| "firstPawn s (x # xs) i =
     (case x of
        None \<Rightarrow> firstPawn s xs (i + 1)
      | Some r \<Rightarrow> if kind (s ! r) = Pawn then Some i else firstPawn s xs (i + 1))"

definition checkRowForPawn :: "int \<Rightarrow> game \<Rightarrow> bool \<times> game" where
  "checkRowForPawn r g =
     (case firstPawn (store g) (take 8 (case nthI (grid (board g)) r of None \<Rightarrow> [] | Some rw \<Rightarrow> rw)) 0 of
        None \<Rightarrow> (False, g)
      | Some i \<Rightarrow> (True, g\<lparr>pawnInPromotion := Some (r, i)\<rparr>))"

definition checkPawnPromotion :: "game \<Rightarrow> bool \<times> game" where
  "checkPawnPromotion g = (if turn g = White then checkRowForPawn 0 g else checkRowForPawn 7 g)"

text \<open>
  checkPossibleCastling.  The loop stops at the first opposing move that lands on the
  king's back rank in columns 1 to 3 or 5 to 6, or at the first move at all if the king's
  flag is set; then both castling squares are taken out of the king's list.
\<close>

definition castlingBlocked :: "int \<Rightarrow> bool \<Rightarrow> position \<Rightarrow> bool" where
  "castlingBlocked r chk mv =
     ((row mv = r \<and> column mv > 0 \<and> column mv < 4)
      \<or> (row mv = r \<and> column mv > 4 \<and> column mv < 7) \<or> chk)"

definition notCastlingSquare :: "int \<Rightarrow> position \<Rightarrow> bool" where
  "notCastlingSquare r kingMove = (\<not> (row kingMove = r \<and> (column kingMove = 2 \<or> column kingMove = 6)))"

definition checkPossibleCastling :: "game \<Rightarrow> bool \<times> game" where
  "checkPossibleCastling g =
     (case getAllPiecesMoves (opponent (turn g)) (store g) (board g) of
        (pieceMoves, s1) \<Rightarrow>
          (let k = (if turn g = White then wKing (board g) else bKing (board g));
               r = (if turn g = White then 7 else 0);
               canCastle = \<not> list_ex (castlingBlocked r (check (s1 ! k))) pieceMoves
           in if \<not> canCastle then
                (canCastle,
                 g\<lparr>store := s1[k := (s1 ! k)\<lparr>availableMoves :=
                                   filter (notCastlingSquare r) (availableMoves (s1 ! k))\<rparr>]\<rparr>)
              else (canCastle, g\<lparr>store := s1\<rparr>)))"

text \<open>
  checkEnPassant.  The neighbours are looked for on the fixed row 4 (white target) or 3
  (black target); every neighbour of the other colour, pawn or not, gets the square
  behind the target pushed onto its list, and the selected piece, whichever it is, gets
  that square as its \<open>enPassantMoves\<close>.
\<close>

definition neighbour :: "game \<Rightarrow> int \<Rightarrow> int \<Rightarrow> color \<Rightarrow> ref list" where
  "neighbour g r c tc =
     (case cell (grid (board g)) r c of
        Some (Some x) \<Rightarrow> if color (store g ! x) \<noteq> tc then [x] else []
      | _ \<Rightarrow> [])"

definition pushMove :: "position \<Rightarrow> store \<Rightarrow> ref \<Rightarrow> store" where
  "pushMove mv s x = s[x := (s ! x)\<lparr>availableMoves := availableMoves (s ! x) @ [mv]\<rparr>]"

definition checkEnPassant :: "game \<Rightarrow> game outcome" where
  "checkEnPassant g =
     (case enPassantTarget g of
        None \<Rightarrow> Done g
      | Some t \<Rightarrow>
          (let capturedPiece = store g ! t;
               r = (if color capturedPiece = White then 4 else 3);
               capturingPieces =
                 neighbour g r (column (position capturedPiece) - 1) (color capturedPiece)
                 @ neighbour g r (column (position capturedPiece) + 1) (color capturedPiece);
               ep = (if color capturedPiece = White
                     then (row (position capturedPiece) + 1, column (position capturedPiece))
                     else (row (position capturedPiece) - 1, column (position capturedPiece)))
           in if capturingPieces \<noteq> [] then
                (let g1 = g\<lparr>store := foldl (pushMove ep) (store g) capturingPieces\<rparr>
                 in case selectedPiece g1 of
                      None \<Rightarrow> Threw g1
                    | Some sp \<Rightarrow>
                        Done (g1\<lparr>store := (store g1)[sp := (store g1 ! sp)\<lparr>enPassantMoves := Some ep\<rparr>]\<rparr>))
              else Done g))"

text \<open>
  filterMovesForKingSafety.  (Its \<open>boardClone\<close> is never used.)  The list filtered is a
  JSON copy of the argument.
\<close>

definition filterMovesForKingSafety :: "position list \<Rightarrow> ref \<Rightarrow> game \<Rightarrow> (bool, game) result" where
  "filterMovesForKingSafety availableMoves' p g =
     (let m = (if check (store g ! bKing (board g)) \<or> check (store g ! wKing (board g))
               then Virtual else Actual)
      in case filterPieceMove availableMoves' p m (board g) (store g) of
           Threw s' \<Rightarrow> Thrown (g\<lparr>store := s'\<rparr>)
         | Done s' \<Rightarrow>
             (case selectedPiece g of
                None \<Rightarrow> Thrown (g\<lparr>store := s'\<rparr>)
              | Some sp \<Rightarrow>
                  if availableMoves (s' ! sp) \<noteq> [] then Ret True (g\<lparr>store := s'\<rparr>)
                  else Ret False (g\<lparr>store := s', state := ChoosingPiece\<rparr>)))"

section \<open>Game\<close>

text \<open>
  What the click handler can tell from a click: the square \<open>getUIClick\<close> computes, and
  the image under the click if the cell is one of the promotion picker's.
\<close>

datatype promotion = ToKnight | ToBishop | ToRook | ToQueen

datatype event = Click position "promotion option" | Escape

definition promotionKind :: "promotion \<Rightarrow> kind" where
  "promotionKind c = (case c of ToKnight \<Rightarrow> Knight | ToBishop \<Rightarrow> Bishop | ToRook \<Rightarrow> Rook | ToQueen \<Rightarrow> Queen)"

text \<open>
  Game.choosePiece of the bundled \<^verbatim>\<open>logic.js\<close>.  The second call of
  \<open>clickedPiece.possibleMoves\<close>, inside the log message, recomputes the same list and is
  not repeated here.  The assignment of "Moving a piece" stands after the inner
  conditional, so it also follows a filter that left no move.
\<close>

definition choosePiece :: "position \<Rightarrow> game \<Rightarrow> game outcome" where
  "choosePiece uiClick g =
     (case validateTurn uiClick g of
        Thrown g' \<Rightarrow> Threw g'
      | Ret False g' \<Rightarrow> Done g'
      | Ret True g' \<Rightarrow>
          (case getPieceAtPosition (board g') uiClick of
             Some (Some clickedPiece) \<Rightarrow>
               (case possibleMoves (store g') (board g') clickedPiece of
                  (ms, s1) \<Rightarrow>
                    if ms \<noteq> [] then
                      (let g1 = g'\<lparr>store := s1, selectedPiece := Some clickedPiece\<rparr>
                       in case filterMovesForKingSafety (availableMoves (s1 ! clickedPiece)) clickedPiece g1 of
                            Thrown g2 \<Rightarrow> Threw g2
                          | Ret True g2 \<Rightarrow>
                              (case checkEnPassant g2 of
                                 Threw g3 \<Rightarrow> Threw g3
                               | Done g3 \<Rightarrow> Done (g3\<lparr>enPassantTarget := None, state := MovingAPiece\<rparr>))
                          | Ret False g2 \<Rightarrow> Done (g2\<lparr>state := MovingAPiece\<rparr>))
                    else Done (g'\<lparr>store := s1\<rparr>))
           | _ \<Rightarrow> Threw g'))"

text \<open>
  Game.choosePiece of the module copy (\<^verbatim>\<open>public/js/Game.js\<close>): the same text, except that
  the assignment of "Moving a piece" stands inside the inner conditional.
\<close>

definition choosePieceModule :: "position \<Rightarrow> game \<Rightarrow> game outcome" where
  "choosePieceModule uiClick g =
     (case validateTurn uiClick g of
        Thrown g' \<Rightarrow> Threw g'
      | Ret False g' \<Rightarrow> Done g'
      | Ret True g' \<Rightarrow>
          (case getPieceAtPosition (board g') uiClick of
             Some (Some clickedPiece) \<Rightarrow>
               (case possibleMoves (store g') (board g') clickedPiece of
                  (ms, s1) \<Rightarrow>
                    if ms \<noteq> [] then
                      (let g1 = g'\<lparr>store := s1, selectedPiece := Some clickedPiece\<rparr>
                       in case filterMovesForKingSafety (availableMoves (s1 ! clickedPiece)) clickedPiece g1 of
                            Thrown g2 \<Rightarrow> Threw g2
                          | Ret True g2 \<Rightarrow>
                              (case checkEnPassant g2 of
                                 Threw g3 \<Rightarrow> Threw g3
                               | Done g3 \<Rightarrow> Done (g3\<lparr>enPassantTarget := None, state := MovingAPiece\<rparr>))
                          | Ret False g2 \<Rightarrow> Done g2)
                    else Done (g'\<lparr>store := s1\<rparr>))
           | _ \<Rightarrow> Threw g'))"

text \<open>
  The part Game.movePiece and Game.handlePawnPromotion share: the check test on the
  selected piece, checkmate, stalemate.  \<open>inRules\<close> tells the two apart: movePiece writes
  "Check" to \<open>Rules.gameSituation\<close>, handlePawnPromotion to the Game object; both write
  "Casual" to the Game object.  \<open>$("table").off("click", "td")\<close> follows each of the two
  terminal situations at once.
\<close>

definition adjudicate :: "bool \<Rightarrow> ref \<Rightarrow> game \<Rightarrow> game outcome" where
  "adjudicate inRules sp g =
     (let cv = checkVerification Actual sp (store g) (board g)
      in andThen
           (if fst cv \<noteq> None then
              (let g1 = (if inRules then g\<lparr>store := snd cv, gameSituation := Check\<rparr>
                         else g\<lparr>store := snd cv, gameSituationOfGame := Some Check\<rparr>)
               in case checkMateVerify g1 of
                    Thrown g2 \<Rightarrow> Threw g2
                  | Ret True g2 \<Rightarrow> Done (g2\<lparr>gameSituation := CHECKMATE, clickBound := False\<rparr>)
                  | Ret False g2 \<Rightarrow> Done g2)
            else Done (g\<lparr>store := snd cv, gameSituationOfGame := Some Casual\<rparr>))
           (\<lambda>g3. case staleMateVerification g3 of
                    Thrown g4 \<Rightarrow> Threw g4
                  | Ret sit g4 \<Rightarrow> if sit = Stalemate then Done (g4\<lparr>clickBound := False\<rparr>) else Done g4))"

text \<open>
  The test of Game.movePiece for a double advance: the JSON text of the mover's
  \<open>previousCoordinate\<close> against the start rank and the mover's column, and the mover's
  row.
\<close>

definition doubleAdvanced :: "piece \<Rightarrow> bool" where
  "doubleAdvanced p =
     (previousCoordinate p = Some (if color p = White then 6 else 1, column (position p))
      \<and> (if color p = White then row (position p) = 4 else row (position p) = 3))"

definition movePieceOfGame :: "position \<Rightarrow> game \<Rightarrow> game outcome" where
  "movePieceOfGame uiClick g =
     (case validateUiMove uiClick g of
        Thrown g' \<Rightarrow> Threw g'
      | Ret False g' \<Rightarrow> Done g'
      | Ret True g' \<Rightarrow>
          (case selectedPiece g' of
             None \<Rightarrow> Threw g'
           | Some sp \<Rightarrow>
               (case movePiece (position (store g' ! sp)) uiClick (store g', board g') of
                  Threw sb \<Rightarrow> Threw (g'\<lparr>store := fst sb, board := snd sb\<rparr>)
                | Done sb \<Rightarrow>
                    andThen
                      (andThen (adjudicate True sp (g'\<lparr>store := fst sb, board := snd sb\<rparr>))
                         (\<lambda>g1. if doubleAdvanced (store g1 ! sp)
                                then checkEnPassant (g1\<lparr>enPassantTarget := Some sp\<rparr>)
                                else Done g1))
                      (\<lambda>g2. case checkPawnPromotion g2 of
                               (True, g3) \<Rightarrow> Done (g3\<lparr>state := PawnPromotion\<rparr>)
                             | (False, g3) \<Rightarrow> Done (switchTurn (g3\<lparr>state := ChoosingPiece\<rparr>))))))"

text \<open>
  Game.handlePawnPromotion.  A click with no promotion image under it throws at
  \<open>imgSrc.includes\<close>, before anything is written.
\<close>

definition handlePawnPromotion :: "promotion option \<Rightarrow> game \<Rightarrow> game outcome" where
  "handlePawnPromotion img g =
     (case img of
        None \<Rightarrow> Threw g
      | Some c \<Rightarrow>
          (case selectedPiece g of
             None \<Rightarrow> Threw g
           | Some sp \<Rightarrow>
               (case alloc (store g) (newPiece (promotionKind c) (turn g) (position (store g ! sp))) of
                  (s1, pieceConvertion) \<Rightarrow>
                    (case pawnInPromotion g of
                       None \<Rightarrow> Threw (g\<lparr>store := s1\<rparr>)
                     | Some pp \<Rightarrow>
                         (case setCell (grid (board g)) (row pp) (column pp) (Some pieceConvertion) of
                            None \<Rightarrow> Threw (g\<lparr>store := s1\<rparr>)
                          | Some g' \<Rightarrow>
                              (let b1 = (board g)\<lparr>grid := g'\<rparr>;
                                   s2 = snd (possibleMoves s1 b1 pieceConvertion);
                                   s3 = snd (checkVerification Actual pieceConvertion s2 b1)
                               in andThen (adjudicate False sp (g\<lparr>store := s3, board := b1\<rparr>))
                                    (\<lambda>g1. Done ((switchTurn g1)\<lparr>state := ChoosingPiece\<rparr>))))))))"

definition handleKeyPress :: "game \<Rightarrow> game" where
  "handleKeyPress g =
     (if selectedPiece g \<noteq> None \<and> state g = MovingAPiece \<and> gameSituation g \<noteq> CHECKMATE
      then g\<lparr>state := ChoosingPiece, selectedPiece := None\<rparr>
      else g)"

text \<open>
  Game.handleSquareClick, with the choosePiece of the copy at hand.  After choosePiece
  returns, checkPossibleCastling runs whatever was chosen.
\<close>

definition handleSquareClick :: "(position \<Rightarrow> game \<Rightarrow> game outcome) \<Rightarrow> position \<Rightarrow> promotion option \<Rightarrow> game \<Rightarrow> game outcome" where
  "handleSquareClick chooser uiClick img g =
     (case state g of
        ChoosingPiece \<Rightarrow> andThen (chooser uiClick g) (\<lambda>g1. Done (snd (checkPossibleCastling g1)))
      | MovingAPiece \<Rightarrow> movePieceOfGame uiClick g
      | PawnPromotion \<Rightarrow> handlePawnPromotion img g)"

text \<open>
  One event of the page.  A click reaches the handler only while it is bound; an
  exception inside a handler ends that handler and the page goes on with the state as
  written so far.
\<close>

definition dispatch :: "(position \<Rightarrow> game \<Rightarrow> game outcome) \<Rightarrow> game \<Rightarrow> event \<Rightarrow> game" where
  "dispatch chooser g e =
     (case e of
        Click uiClick img \<Rightarrow>
          if clickBound g then stateOf (handleSquareClick chooser uiClick img g) else g
      | Escape \<Rightarrow> handleKeyPress g)"

text \<open>\<open>new Game()\<close>: a fresh board, the initial Rules fields, the handlers bound.\<close>

definition newGame :: game where
  "newGame =
     (case newBoard [] of
        (s, b) \<Rightarrow>
          \<lparr>store = s, board = b, turn = White, selectedPiece = None, gameSituation = Casual,
           state = ChoosingPiece, enPassantTarget = None, availableMovesBlacks = 10,
           availableMovesWhite = 10, pawnInPromotion = None, clickBound = True,
           gameSituationOfGame = None\<rparr>)"

text \<open>The bundled copy and the module copy, run on a sequence of events.\<close>

definition play :: "game \<Rightarrow> event list \<Rightarrow> game" where
  "play g es = foldl (dispatch choosePiece) g es"

definition playModule :: "game \<Rightarrow> event list \<Rightarrow> game" where
  "playModule g es = foldl (dispatch choosePieceModule) g es"

section \<open>Predicates used in the statements\<close>

text \<open>The shape the Board constructor gives the grid: 8 rows of 8 cells.\<close>

definition grid8 :: "board \<Rightarrow> bool" where
  "grid8 b = (length (grid b) = 8 \<and> list_all (\<lambda>rw. length rw = 8) (grid b))"

(*DEFS-END*)

section \<open>Array reads\<close>

lemma nthI_Some: "0 \<le> i \<Longrightarrow> i < int (length xs) \<Longrightarrow> nthI xs i = Some (xs ! nat i)"
proof (induction xs arbitrary: i)
  case Nil
  then show ?case by simp
next
  case (Cons x xs)
  show ?case
  proof (cases "i = 0")
    case True
    then show ?thesis by simp
  next
    case False
    with Cons.prems have "0 \<le> i - 1" "i - 1 < int (length xs)" by auto
    from Cons.IH[OF this] False Cons.prems show ?thesis
      by (simp add: nat_diff_distrib')
  qed
qed

lemma nthI_None: "i < 0 \<or> int (length xs) \<le> i \<Longrightarrow> nthI xs i = None"
  by (induction xs arbitrary: i) auto

lemma newBoard_grid8: "grid8 (snd (newBoard []))"
  by code_simp

section \<open>Board.isSquareOccupied is safe\<close>

text \<open>
  Claim C9.  For every board and every position, Board.isSquareOccupied returns a
  boolean and none of its array reads falls outside its array (the result is never
  \<open>None\<close>, whatever the shape of the grid); on the 8 by 8 grid it answers false for
  every position whose row or column lies outside 0 to 7.
\<close>

theorem isSquareOccupied_safe:
  "(\<exists>v. isSquareOccupied b p = Some v)
   \<and> (grid8 b \<longrightarrow> \<not> onBoard (row p) (column p) \<longrightarrow> isSquareOccupied b p = Some False)"
proof
  show "\<exists>v. isSquareOccupied b p = Some v"
    by (auto simp: isSquareOccupied_def nthI_Some)
next
  show "grid8 b \<longrightarrow> \<not> onBoard (row p) (column p) \<longrightarrow> isSquareOccupied b p = Some False"
  proof (intro impI)
    assume g: "grid8 b" and o: "\<not> onBoard (row p) (column p)"
    show "isSquareOccupied b p = Some False"
    proof (cases "row p \<ge> 0 \<and> row p < 8 \<and> column p \<ge> 0")
      case True
      then have r: "nthI (grid b) (row p) = Some (grid b ! nat (row p))"
        using g by (intro nthI_Some) (auto simp: grid8_def)
      have "nat (row p) < length (grid b)" using True g by (auto simp: grid8_def)
      then have "length (grid b ! nat (row p)) = 8"
        using g by (auto simp: grid8_def list_all_length)
      moreover have "\<not> column p < 8" using True o by (auto simp: onBoard_def)
      ultimately show ?thesis using True g r
        by (simp add: isSquareOccupied_def grid8_def)
    next
      case False
      then show ?thesis using g by (auto simp: isSquareOccupied_def grid8_def)
    qed
  qed
qed

theorem isSquareOccupied_safe_witness:
  "grid8 (snd (newBoard [])) \<and> \<not> onBoard 8 3
   \<and> isSquareOccupied (snd (newBoard [])) (8, 3) = Some False
   \<and> isSquareOccupied (snd (newBoard [])) (7, 3) = Some True"
proof -
  have a: "grid8 (snd (newBoard []))" by (rule newBoard_grid8)
  have b: "\<not> onBoard 8 3" by (simp add: onBoard_def)
  have c: "isSquareOccupied (snd (newBoard [])) (7, 3) = Some True" by code_simp
  from isSquareOccupied_safe [of "snd (newBoard [])" "(8, 3)"] a b c show ?thesis by simp
qed

end
